theory Spec2Isabelle
  imports Main
begin

section \<open>The remote interface of the TEN engine\<close>

text \<open>
  A shallow embedding of \<^verbatim>\<open>core/src/ten_runtime/engine/internal/remote_interface.c\<close>.
  The engine is a record that the functions take and return; calls into collaborators
  (remote, connection, protocol, addon registry, host engine) are recorded, in call order,
  as a list of effects. A failing \<^verbatim>\<open>TEN_ASSERT\<close> aborts the program: a function that
  can fail one returns \<open>None\<close> there. The assertions that a pointer is not null and that
  an object passes its integrity check have no counterpart, the values of the model being
  always valid, and log output is left out.
\<close>

subsection \<open>C strings\<close>

text \<open>
  Modelled from the spec: \<^verbatim>\<open>ten_c_string_is_equal_or_smaller\<close> (ten_utils/lib/string.h)
  is not among the sources. The spec describes the comparison as a bytewise lexicographic
  compare of the two URIs; \<open>ten_c_string_is_equal_or_smaller a b\<close> says that \<open>a\<close> is equal to
  or smaller than \<open>b\<close>.
\<close>

fun ten_c_string_is_equal_or_smaller :: "string \<Rightarrow> string \<Rightarrow> bool" where
  "ten_c_string_is_equal_or_smaller [] b = True"
| "ten_c_string_is_equal_or_smaller (x # a) [] = False"
| "ten_c_string_is_equal_or_smaller (x # a) (y # b) =
     (if (of_char x :: nat) < of_char y then True
      else if (of_char y :: nat) < of_char x then False
      else ten_c_string_is_equal_or_smaller a b)"

text \<open>The strict order of the same comparison: \<open>a\<close> is lexicographically smaller than \<open>b\<close>.\<close>

definition c_string_is_smaller :: "string \<Rightarrow> string \<Rightarrow> bool" where
  "c_string_is_smaller a b \<longleftrightarrow> ten_c_string_is_equal_or_smaller a b \<and> a \<noteq> b"

subsection \<open>Data model\<close>

record ten_app =
  app_uri :: string
  predefined_graph_infos :: "string list"

record ten_protocol =
  protocol_ptr :: nat
  protocol_uri :: string

datatype TEN_CONNECTION_MIGRATION_STATE =
  TEN_CONNECTION_MIGRATION_STATE_INIT
| TEN_CONNECTION_MIGRATION_STATE_DONE

record ten_connection =
  connection_protocol :: ten_protocol
  connection_uri :: string
  migration_state :: TEN_CONNECTION_MIGRATION_STATE

text \<open>
  A remote is referred to by pointer in the source; \<open>remote_ptr\<close> is that address, and a
  comparison of two remote pointers compares this field.
\<close>

record ten_remote =
  remote_ptr :: nat
  remote_uri :: string
  remote_connection :: ten_connection

text \<open>
  Modelled from the spec: the message type discriminator (ten_runtime/msg/msg.h) is not
  among the sources, which name only \<^verbatim>\<open>TEN_MSG_TYPE_CMD_START_GRAPH\<close> and
  \<^verbatim>\<open>TEN_MSG_TYPE_CMD_RESULT\<close>; the spec lists these two and "others".
\<close>

datatype TEN_MSG_TYPE =
  TEN_MSG_TYPE_CMD
| TEN_MSG_TYPE_CMD_RESULT
| TEN_MSG_TYPE_CMD_CLOSE_APP
| TEN_MSG_TYPE_CMD_START_GRAPH
| TEN_MSG_TYPE_CMD_STOP_GRAPH
| TEN_MSG_TYPE_CMD_TIMER
| TEN_MSG_TYPE_CMD_TIMEOUT
| TEN_MSG_TYPE_DATA
| TEN_MSG_TYPE_VIDEO_FRAME
| TEN_MSG_TYPE_AUDIO_FRAME

datatype TEN_STATUS_CODE = TEN_STATUS_CODE_OK | TEN_STATUS_CODE_ERROR

record ten_loc =
  loc_app_uri :: string
  loc_graph_id :: string

record ten_msg =
  msg_type :: TEN_MSG_TYPE
  msg_name :: string
  src_graph_id :: string
  dest_loc :: "ten_loc list"

record ten_cmd_result =
  status_code :: TEN_STATUS_CODE
  original_cmd :: ten_msg
  properties :: "(string \<times> string) list"

record ten_engine =
  app :: ten_app
  graph_id :: string
  remotes :: "string \<rightharpoonup> ten_remote"
  weak_remotes :: "ten_remote list"
  is_closing :: bool
  long_running_mode :: bool
  has_uncompleted_async_task :: bool
  original_start_graph_cmd_of_enabling_engine :: "ten_msg option"

text \<open>The calls into collaborators, in the order the source makes them.\<close>

datatype effect =
  RemoteDestroy ten_remote
| RemoteClose ten_remote
| RemoteSendMsg ten_remote ten_msg
| RemoteConnectTo ten_remote ten_msg
| RemoteClearOnServerConnectedCmd ten_remote
| ProtocolSendMsg ten_protocol ten_msg
| ProtocolSetOnClosed ten_protocol
| ProtocolClose ten_protocol
| ProtocolRefDecRef ten_protocol
| ConnectionSendMsg ten_connection ten_cmd_result
| ConnectionSetOnClosed ten_connection ten_remote
| AddonCreateProtocolWithUri string
| CtxCreate
| CtxDestroy
| SharedPtrDestroy ten_msg
| EngineOnClose
| EngineCloseAsync
| EngineDispatchMsg ten_msg
| EngineCreateCmdResultAndDispatch ten_msg TEN_STATUS_CODE string
| EngineReturnErrorForCmdStartGraph ten_msg string
| EngineReturnOkForCmdStartGraph ten_msg
| EngineDelOrphanConnection ten_connection

subsection \<open>Containers\<close>

definition ten_remote_is_uri_equal_to :: "ten_remote \<Rightarrow> string \<Rightarrow> bool" where
  "ten_remote_is_uri_equal_to remote uri \<longleftrightarrow> remote_uri remote = uri"

text \<open>
  The pointer list of ten_utils: \<^verbatim>\<open>ten_list_remove_ptr\<close> unlinks the first node that holds
  the pointer and says whether there was one; \<^verbatim>\<open>ten_list_find_ptr_custom\<close> returns the
  first node the predicate accepts; \<^verbatim>\<open>ten_list_find_ptr_cnt_custom\<close> counts them.
\<close>

fun ten_list_remove_ptr :: "ten_remote list \<Rightarrow> ten_remote \<Rightarrow> bool \<times> ten_remote list" where
  "ten_list_remove_ptr [] ptr = (False, [])"
| "ten_list_remove_ptr (x # xs) ptr =
     (if remote_ptr x = remote_ptr ptr then (True, xs)
      else (fst (ten_list_remove_ptr xs ptr), x # snd (ten_list_remove_ptr xs ptr)))"

definition ten_list_find_ptr_custom ::
  "ten_remote list \<Rightarrow> string \<Rightarrow> (ten_remote \<Rightarrow> string \<Rightarrow> bool) \<Rightarrow> ten_remote option" where
  "ten_list_find_ptr_custom xs uri equal_to = find (\<lambda>r. equal_to r uri) xs"

definition ten_list_find_ptr_cnt_custom ::
  "ten_remote list \<Rightarrow> string \<Rightarrow> (ten_remote \<Rightarrow> string \<Rightarrow> bool) \<Rightarrow> nat" where
  "ten_list_find_ptr_cnt_custom xs uri equal_to = length (filter (\<lambda>r. equal_to r uri) xs)"

definition ten_list_push_ptr_back :: "ten_remote list \<Rightarrow> ten_remote \<Rightarrow> ten_remote list" where
  "ten_list_push_ptr_back xs ptr = xs @ [ptr]"

text \<open>
  Modelled from the spec: the string-keyed hash table (ten_utils/container/hash_table.h) is
  not among the sources. The spec describes \<open>remotes\<close> as a mapping from URI to remote whose
  insertion panics if an entry for the key already exists.
\<close>

definition ten_hashtable_find_string :: "(string \<rightharpoonup> ten_remote) \<Rightarrow> string \<Rightarrow> ten_remote option" where
  "ten_hashtable_find_string tbl key = tbl key"

definition ten_hashtable_add_string ::
  "(string \<rightharpoonup> ten_remote) \<Rightarrow> string \<Rightarrow> ten_remote \<Rightarrow> (string \<rightharpoonup> ten_remote) option" where
  "ten_hashtable_add_string tbl key remote =
     (case tbl key of None \<Rightarrow> Some (tbl(key \<mapsto> remote)) | Some _ \<Rightarrow> None)"

definition ten_hashtable_del :: "(string \<rightharpoonup> ten_remote) \<Rightarrow> string \<Rightarrow> (string \<rightharpoonup> ten_remote)" where
  "ten_hashtable_del tbl key = tbl(key := None)"

subsection \<open>Lookups and the duplicate check\<close>

definition ten_engine_find_remote :: "ten_engine \<Rightarrow> string \<Rightarrow> ten_remote option" where
  "ten_engine_find_remote self uri = ten_hashtable_find_string (remotes self) uri"

definition ten_engine_find_weak_remote :: "ten_engine \<Rightarrow> string \<Rightarrow> ten_remote option" where
  "ten_engine_find_weak_remote self uri = find (\<lambda>remote. remote_uri remote = uri) (weak_remotes self)"

text \<open>
  \<^verbatim>\<open>ten_engine_check_remote_is_existed\<close> and \<^verbatim>\<open>ten_engine_check_remote_is_duplicated\<close> take
  the engine by pointer; the model returns, next to the result, the engine they leave
  behind. The assertion on the weak count in the first one is compiled under
  \<^verbatim>\<open>_DEBUG\<close> only and is not part of the model.
\<close>

definition ten_engine_check_remote_is_existed ::
  "ten_engine \<Rightarrow> string \<Rightarrow> ten_remote option \<times> ten_engine" where
  "ten_engine_check_remote_is_existed self uri =
     (case ten_hashtable_find_string (remotes self) uri of
        Some remote \<Rightarrow> (Some remote, self)
      | None \<Rightarrow>
          (ten_list_find_ptr_custom (weak_remotes self) uri ten_remote_is_uri_equal_to, self))"

definition ten_app_get_uri :: "ten_app \<Rightarrow> string" where
  "ten_app_get_uri a = app_uri a"

definition ten_engine_check_remote_is_duplicated :: "ten_engine \<Rightarrow> string \<Rightarrow> bool \<times> ten_engine" where
  "ten_engine_check_remote_is_duplicated self uri =
     (case ten_engine_check_remote_is_existed self uri of
        (Some remote, self1) \<Rightarrow>
          if ten_c_string_is_equal_or_smaller uri (ten_app_get_uri (app self1))
          then (True, self1) else (False, self1)
      | (None, self1) \<Rightarrow> (False, self1))"

subsection \<open>The two tables\<close>

definition ten_engine_del_weak_remote :: "ten_engine \<Rightarrow> ten_remote \<Rightarrow> bool \<times> ten_engine" where
  "ten_engine_del_weak_remote self remote =
     (let success = fst (ten_list_remove_ptr (weak_remotes self) remote)
      in (success, self\<lparr>weak_remotes := snd (ten_list_remove_ptr (weak_remotes self) remote)\<rparr>))"

definition ten_engine_weak_remotes_cnt_in_specified_uri :: "ten_engine \<Rightarrow> string \<Rightarrow> nat" where
  "ten_engine_weak_remotes_cnt_in_specified_uri self uri =
     ten_list_find_ptr_cnt_custom (weak_remotes self) uri ten_remote_is_uri_equal_to"

definition ten_engine_on_remote_closed ::
  "ten_remote \<Rightarrow> ten_engine \<Rightarrow> (ten_engine \<times> effect list) option" where
  "ten_engine_on_remote_closed remote self =
     (if \<not> ten_engine_weak_remotes_cnt_in_specified_uri self (remote_uri remote) \<le> 1 then None
      else
        case ten_engine_del_weak_remote self remote of (is_weak, self1) \<Rightarrow>
        let lifecycle = (\<lambda>self2.
              if is_closing self2 then [EngineOnClose]
              else if \<not> is_weak \<and> \<not> long_running_mode self2 then [EngineCloseAsync]
              else [])
        in
          if is_weak then Some (self1, RemoteDestroy remote # lifecycle self1)
          else
            (case ten_hashtable_find_string (remotes self1) (remote_uri remote) of
               Some strong_remote \<Rightarrow>
                 if remote_ptr strong_remote = remote_ptr remote then
                   (let self2 = self1\<lparr>remotes :=
                                  ten_hashtable_del (remotes self1) (remote_uri remote)\<rparr>
                    in Some (self2, lifecycle self2))
                 else Some (self1, [RemoteDestroy remote])
             | None \<Rightarrow> Some (self1, [RemoteDestroy remote])))"

definition ten_engine_add_remote :: "ten_engine \<Rightarrow> ten_remote \<Rightarrow> ten_engine option" where
  "ten_engine_add_remote self remote =
     (case ten_hashtable_add_string (remotes self) (remote_uri remote) remote of
        None \<Rightarrow> None
      | Some tbl \<Rightarrow> Some (self\<lparr>remotes := tbl\<rparr>))"

definition ten_engine_add_weak_remote :: "ten_engine \<Rightarrow> ten_remote \<Rightarrow> ten_engine option" where
  "ten_engine_add_weak_remote self remote =
     (case ten_list_find_ptr_custom (weak_remotes self) (remote_uri remote)
             ten_remote_is_uri_equal_to of
        Some found \<Rightarrow> None
      | None \<Rightarrow> Some (self\<lparr>weak_remotes := ten_list_push_ptr_back (weak_remotes self) remote\<rparr>))"

definition ten_engine_upgrade_weak_remote_to_normal_remote ::
  "ten_engine \<Rightarrow> ten_remote \<Rightarrow> ten_engine option" where
  "ten_engine_upgrade_weak_remote_to_normal_remote self remote =
     ten_engine_add_remote (snd (ten_engine_del_weak_remote self remote)) remote"

text \<open>
  \<^verbatim>\<open>ten_remote_create_for_engine\<close> allocates the remote; the address the allocator
  returns is an argument of the model.
\<close>

definition ten_remote_create_for_engine :: "nat \<Rightarrow> string \<Rightarrow> ten_connection \<Rightarrow> ten_remote" where
  "ten_remote_create_for_engine ptr uri connection =
     \<lparr>remote_ptr = ptr, remote_uri = uri, remote_connection = connection\<rparr>"

definition ten_engine_link_orphan_connection_to_remote ::
  "nat \<Rightarrow> ten_engine \<Rightarrow> ten_connection \<Rightarrow> string \<Rightarrow> (ten_engine \<times> effect list) option" where
  "ten_engine_link_orphan_connection_to_remote ptr self orphan_connection uri =
     (case ten_engine_find_remote self uri of
        Some existing \<Rightarrow> None
      | None \<Rightarrow>
          (let remote = ten_remote_create_for_engine ptr uri orphan_connection
           in case ten_engine_add_remote self remote of
                None \<Rightarrow> None
              | Some self1 \<Rightarrow>
                  Some (self1, [EngineDelOrphanConnection orphan_connection,
                                ConnectionSetOnClosed orphan_connection remote])))"

definition ten_engine_check_remote_is_weak :: "ten_engine \<Rightarrow> ten_remote \<Rightarrow> bool" where
  "ten_engine_check_remote_is_weak self remote \<longleftrightarrow>
     find (\<lambda>r. remote_ptr r = remote_ptr remote) (weak_remotes self) \<noteq> None"

subsection \<open>Messages\<close>

text \<open>
  Modelled from the spec: the message accessors (ten_runtime/msg/msg.h) are not among the
  sources. The spec names a type discriminator, \<open>get_first_dest_uri\<close>,
  \<open>set_src_graph_id_if_empty\<close> and \<open>set_dest_graph_if_empty_or_predefined_graph_name\<close>;
  \<open>ten_msg_is_cmd\<close> holds of the command types, a command result not being a command.
\<close>

definition ten_msg_get_type :: "ten_msg \<Rightarrow> TEN_MSG_TYPE" where
  "ten_msg_get_type msg = msg_type msg"

definition ten_msg_is_cmd :: "ten_msg \<Rightarrow> bool" where
  "ten_msg_is_cmd msg \<longleftrightarrow>
     (case msg_type msg of
        TEN_MSG_TYPE_CMD \<Rightarrow> True
      | TEN_MSG_TYPE_CMD_CLOSE_APP \<Rightarrow> True
      | TEN_MSG_TYPE_CMD_START_GRAPH \<Rightarrow> True
      | TEN_MSG_TYPE_CMD_STOP_GRAPH \<Rightarrow> True
      | TEN_MSG_TYPE_CMD_TIMER \<Rightarrow> True
      | TEN_MSG_TYPE_CMD_TIMEOUT \<Rightarrow> True
      | _ \<Rightarrow> False)"

definition ten_msg_get_dest_cnt :: "ten_msg \<Rightarrow> nat" where
  "ten_msg_get_dest_cnt msg = length (dest_loc msg)"

definition ten_msg_get_first_dest_uri :: "ten_msg \<Rightarrow> string option" where
  "ten_msg_get_first_dest_uri msg =
     (case dest_loc msg of [] \<Rightarrow> None | first_loc # rest \<Rightarrow> Some (loc_app_uri first_loc))"

definition ten_msg_set_src_graph_id_if_empty :: "ten_msg \<Rightarrow> ten_engine \<Rightarrow> ten_msg" where
  "ten_msg_set_src_graph_id_if_empty msg engine =
     (if src_graph_id msg = [] then msg\<lparr>src_graph_id := graph_id engine\<rparr> else msg)"

definition ten_msg_set_dest_graph_if_empty_or_predefined_graph_name ::
  "ten_msg \<Rightarrow> ten_engine \<Rightarrow> string list \<Rightarrow> ten_msg" where
  "ten_msg_set_dest_graph_if_empty_or_predefined_graph_name msg engine infos =
     msg\<lparr>dest_loc :=
       map (\<lambda>loc. if loc_graph_id loc = [] \<or> loc_graph_id loc \<in> set infos
                  then loc\<lparr>loc_graph_id := graph_id engine\<rparr> else loc)
           (dest_loc msg)\<rparr>"

definition TEN_STR_DETAIL :: string where
  "TEN_STR_DETAIL = ''detail''"

definition ten_cmd_result_create_from_cmd :: "TEN_STATUS_CODE \<Rightarrow> ten_msg \<Rightarrow> ten_cmd_result" where
  "ten_cmd_result_create_from_cmd status cmd =
     \<lparr>status_code = status, original_cmd = cmd, properties = []\<rparr>"

definition ten_msg_set_property :: "ten_cmd_result \<Rightarrow> string \<Rightarrow> string \<Rightarrow> ten_cmd_result" where
  "ten_msg_set_property cmd_result key v =
     cmd_result\<lparr>properties := (key, v) # properties cmd_result\<rparr>"

definition ten_msg_get_property :: "ten_cmd_result \<Rightarrow> string \<Rightarrow> string option" where
  "ten_msg_get_property cmd_result key = map_of (properties cmd_result) key"

subsection \<open>Asynchronous creation of a remote\<close>

text \<open>
  The context of a pending creation: the callback (a function pointer, possibly null) and
  its user data, which in this file is always the per-hop \<open>start_graph\<close> command.
\<close>

record ten_engine_on_protocol_created_ctx =
  ctx_cb :: "(ten_engine \<Rightarrow> ten_remote option \<Rightarrow> ten_msg \<Rightarrow> (ten_engine \<times> effect list) option) option"
  ctx_user_data :: ten_msg

definition ten_engine_on_protocol_closed ::
  "ten_protocol \<Rightarrow> ten_engine \<Rightarrow> (ten_engine \<times> effect list) option" where
  "ten_engine_on_protocol_closed protocol self =
     (if \<not> is_closing self then None
      else Some (self\<lparr>has_uncompleted_async_task := False\<rparr>,
                 [ProtocolRefDecRef protocol, EngineOnClose]))"

definition ten_connection_create :: "ten_protocol \<Rightarrow> ten_connection" where
  "ten_connection_create protocol =
     \<lparr>connection_protocol = protocol, connection_uri = [],
      migration_state = TEN_CONNECTION_MIGRATION_STATE_INIT\<rparr>"

definition ten_connection_set_migration_state ::
  "ten_connection \<Rightarrow> TEN_CONNECTION_MIGRATION_STATE \<Rightarrow> ten_connection" where
  "ten_connection_set_migration_state connection new_state =
     connection\<lparr>migration_state := new_state\<rparr>"

text \<open>
  \<open>ptr\<close> is the address of the remote that \<^verbatim>\<open>ten_remote_create_for_engine\<close> allocates on
  the normal path.
\<close>

definition ten_engine_on_protocol_created ::
  "nat \<Rightarrow> ten_engine \<Rightarrow> ten_protocol \<Rightarrow> ten_engine_on_protocol_created_ctx \<Rightarrow>
   (ten_engine \<times> effect list) option" where
  "ten_engine_on_protocol_created ptr self protocol ctx =
     (if is_closing self then
        (case (case ctx_cb ctx of
                 Some cb \<Rightarrow> cb self None (ctx_user_data ctx)
               | None \<Rightarrow> Some (self, [])) of
           None \<Rightarrow> None
         | Some (self1, effs) \<Rightarrow>
             Some (self1, effs @ [CtxDestroy, ProtocolSetOnClosed protocol, ProtocolClose protocol]))
      else
        (let self1 = self\<lparr>has_uncompleted_async_task := False\<rparr>;
             connection = (ten_connection_create protocol)\<lparr>connection_uri := protocol_uri protocol\<rparr>;
             connection1 = ten_connection_set_migration_state connection
                             TEN_CONNECTION_MIGRATION_STATE_DONE;
             remote = ten_remote_create_for_engine ptr (protocol_uri protocol) connection1
         in case (case ctx_cb ctx of
                    Some cb \<Rightarrow> cb self1 (Some remote) (ctx_user_data ctx)
                  | None \<Rightarrow> Some (self1, [])) of
              None \<Rightarrow> None
            | Some (self2, effs) \<Rightarrow>
                Some (self2, ConnectionSetOnClosed connection1 remote # effs @ [CtxDestroy])))"

text \<open>
  \<open>ten_addon_create_protocol_with_uri\<close> is the addon registry's answer for a URI: whether it
  starts creating a protocol.
\<close>

definition ten_engine_create_remote_async ::
  "(string \<Rightarrow> bool) \<Rightarrow> ten_engine \<Rightarrow> string \<Rightarrow>
   (ten_engine \<Rightarrow> ten_remote option \<Rightarrow> ten_msg \<Rightarrow> (ten_engine \<times> effect list) option) \<Rightarrow>
   ten_msg \<Rightarrow> bool \<times> ten_engine \<times> effect list" where
  "ten_engine_create_remote_async ten_addon_create_protocol_with_uri self uri
       on_remote_created_cb cb_data =
     (let success = ten_addon_create_protocol_with_uri uri;
          self1 = (if success then self\<lparr>has_uncompleted_async_task := True\<rparr> else self)
      in (success, self1,
          [CtxCreate, AddonCreateProtocolWithUri uri] @ (if \<not> success then [CtxDestroy] else [])))"

subsection \<open>The per-hop \<open>start_graph\<close>\<close>



definition ten_engine_connect_to_remote_after_remote_is_created ::
  "ten_engine \<Rightarrow> ten_remote option \<Rightarrow> ten_msg \<Rightarrow> (ten_engine \<times> effect list) option" where
  "ten_engine_connect_to_remote_after_remote_is_created engine remote_opt
       start_graph_cmd_for_the_remote =
     (case original_start_graph_cmd_of_enabling_engine engine of
        None \<Rightarrow> None
      | Some origin_start_graph_cmd \<Rightarrow>
          (case remote_opt of
             None \<Rightarrow>
               (case ten_msg_get_first_dest_uri start_graph_cmd_for_the_remote of
                  None \<Rightarrow> None
                | Some dest_uri \<Rightarrow>
                    Some (engine,
                          [EngineReturnErrorForCmdStartGraph start_graph_cmd_for_the_remote
                             (''Failed to create remote ('' @ dest_uri @ '')''),
                           SharedPtrDestroy start_graph_cmd_for_the_remote]))
           | Some remote \<Rightarrow>
               (case ten_engine_check_remote_is_duplicated engine (remote_uri remote) of
                  (True, engine1) \<Rightarrow>
                    Some (engine1,
                          [RemoteClose remote,
                           EngineReturnOkForCmdStartGraph start_graph_cmd_for_the_remote,
                           SharedPtrDestroy start_graph_cmd_for_the_remote])
                | (False, engine1) \<Rightarrow>
                    (case ten_engine_add_weak_remote engine1 remote of
                       None \<Rightarrow> None
                     | Some engine2 \<Rightarrow>
                         Some (engine2,
                               [RemoteConnectTo remote start_graph_cmd_for_the_remote,
                                SharedPtrDestroy start_graph_cmd_for_the_remote])))))"

definition ten_engine_connect_to_graph_remote ::
  "(string \<Rightarrow> bool) \<Rightarrow> ten_engine \<Rightarrow> string \<Rightarrow> ten_msg \<Rightarrow>
   (bool \<times> ten_engine \<times> effect list) option" where
  "ten_engine_connect_to_graph_remote ten_addon_create_protocol_with_uri self uri cmd =
     (if ten_msg_get_type cmd \<noteq> TEN_MSG_TYPE_CMD_START_GRAPH then None
      else Some (ten_engine_create_remote_async ten_addon_create_protocol_with_uri self uri
                   ten_engine_connect_to_remote_after_remote_is_created cmd))"

subsection \<open>Routing and receiving\<close>

text \<open>
  \<open>ten_remote_send_msg\<close> is the remote's answer to a send: \<open>None\<close> when the message went
  out, the error message when it did not.
\<close>

definition ten_engine_route_msg_to_remote ::
  "(ten_remote \<Rightarrow> ten_msg \<Rightarrow> string option) \<Rightarrow> ten_engine \<Rightarrow> ten_msg \<Rightarrow>
   (ten_engine \<times> effect list) option" where
  "ten_engine_route_msg_to_remote ten_remote_send_msg self msg =
     (if ten_msg_get_dest_cnt msg \<noteq> 1 then None
      else
        case ten_msg_get_first_dest_uri msg of
          None \<Rightarrow> None
        | Some dest_uri \<Rightarrow>
            (case (case ten_engine_find_remote self dest_uri of
                     Some remote \<Rightarrow>
                       (case ten_remote_send_msg remote msg of
                          None \<Rightarrow> (True, [], [RemoteSendMsg remote msg])
                        | Some send_err \<Rightarrow> (False, send_err, [RemoteSendMsg remote msg]))
                   | None \<Rightarrow>
                       (False, ''Could not find suitable remote based on uri: '' @ dest_uri, [])) of
               (success, err, effs) \<Rightarrow>
                 Some (self,
                       effs @
                       (if \<not> success \<and> ten_msg_is_cmd msg
                        then [EngineCreateCmdResultAndDispatch msg TEN_STATUS_CODE_ERROR err]
                        else []))))"

definition ten_engine_receive_msg_from_remote ::
  "ten_engine \<Rightarrow> ten_remote \<Rightarrow> ten_msg \<Rightarrow> bool \<times> ten_engine \<times> effect list" where
  "ten_engine_receive_msg_from_remote engine remote msg =
     (let msg1 = ten_msg_set_src_graph_id_if_empty msg engine;
          msg2 = ten_msg_set_dest_graph_if_empty_or_predefined_graph_name msg1 engine
                   (predefined_graph_infos (app engine))
      in case ten_msg_get_type msg2 of
           TEN_MSG_TYPE_CMD_START_GRAPH \<Rightarrow>
             (let cmd_result = ten_msg_set_property
                                 (ten_cmd_result_create_from_cmd TEN_STATUS_CODE_ERROR msg2)
                                 TEN_STR_DETAIL
                                 ''Receive a start_graph cmd after graph is built.''
              in (True, engine, [ConnectionSendMsg (remote_connection remote) cmd_result]))
         | _ \<Rightarrow> (True, engine, [EngineDispatchMsg msg2]))"

subsection \<open>Results of a per-hop command\<close>


subsection \<open>Reachable states\<close>

text \<open>
  The states of an engine that the operations of this file reach. An engine starts with
  both tables empty; collaborators write the other fields of the engine (\<open>is_closing\<close>,
  the original \<open>start_graph\<close> command) but never the two tables.
\<close>

inductive engine_reachable :: "ten_engine \<Rightarrow> bool" where
  created: "remotes self = Map.empty \<Longrightarrow> weak_remotes self = [] \<Longrightarrow> engine_reachable self"
| collaborator:
    "engine_reachable self \<Longrightarrow> remotes self1 = remotes self \<Longrightarrow>
     weak_remotes self1 = weak_remotes self \<Longrightarrow> engine_reachable self1"
| remote_closed:
    "engine_reachable self \<Longrightarrow> ten_engine_on_remote_closed remote self = Some (self1, effs) \<Longrightarrow>
     engine_reachable self1"
| upgraded:
    "engine_reachable self \<Longrightarrow>
     ten_engine_upgrade_weak_remote_to_normal_remote self remote = Some self1 \<Longrightarrow>
     engine_reachable self1"
| orphan_linked:
    "engine_reachable self \<Longrightarrow>
     ten_engine_link_orphan_connection_to_remote ptr self orphan_connection uri = Some (self1, effs) \<Longrightarrow>
     engine_reachable self1"
| protocol_closed:
    "engine_reachable self \<Longrightarrow> ten_engine_on_protocol_closed protocol self = Some (self1, effs) \<Longrightarrow>
     engine_reachable self1"
| protocol_created:
    "engine_reachable self \<Longrightarrow>
     ctx_cb ctx = None \<or> ctx_cb ctx = Some ten_engine_connect_to_remote_after_remote_is_created \<Longrightarrow>
     ten_engine_on_protocol_created ptr self protocol ctx = Some (self1, effs) \<Longrightarrow>
     engine_reachable self1"
| graph_remote_dialled:
    "engine_reachable self \<Longrightarrow>
     ten_engine_connect_to_graph_remote addon self uri cmd = Some (success, self1, effs) \<Longrightarrow>
     engine_reachable self1"
| msg_routed:
    "engine_reachable self \<Longrightarrow>
     ten_engine_route_msg_to_remote send self msg = Some (self1, effs) \<Longrightarrow>
     engine_reachable self1"
| msg_received:
    "engine_reachable self \<Longrightarrow>
     ten_engine_receive_msg_from_remote self remote msg = (success, self1, effs) \<Longrightarrow>
     engine_reachable self1"

subsection \<open>Example states\<close>

definition example_connection :: "string \<Rightarrow> ten_connection" where
  "example_connection uri =
     \<lparr>connection_protocol = \<lparr>protocol_ptr = 3, protocol_uri = uri\<rparr>,
      connection_uri = uri, migration_state = TEN_CONNECTION_MIGRATION_STATE_DONE\<rparr>"

definition example_remote :: "nat \<Rightarrow> string \<Rightarrow> ten_remote" where
  "example_remote ptr uri =
     \<lparr>remote_ptr = ptr, remote_uri = uri, remote_connection = example_connection uri\<rparr>"

definition example_cmd :: "TEN_MSG_TYPE \<Rightarrow> string \<Rightarrow> ten_msg" where
  "example_cmd t dest =
     \<lparr>msg_type = t, msg_name = ''x'', src_graph_id = [],
      dest_loc = [\<lparr>loc_app_uri = dest, loc_graph_id = []\<rparr>]\<rparr>"

definition example_engine :: "string \<Rightarrow> (string \<rightharpoonup> ten_remote) \<Rightarrow> ten_remote list \<Rightarrow> ten_engine" where
  "example_engine uri strong weak =
     \<lparr>app = \<lparr>app_uri = uri, predefined_graph_infos = []\<rparr>,
      graph_id = ''graph'',
      remotes = strong,
      weak_remotes = weak,
      is_closing = False,
      long_running_mode = False,
      has_uncompleted_async_task = False,
      original_start_graph_cmd_of_enabling_engine =
        Some (example_cmd TEN_MSG_TYPE_CMD_START_GRAPH uri)\<rparr>"

definition example_addon :: "string \<Rightarrow> bool" where
  "example_addon uri \<longleftrightarrow> uri = ''B''"

definition example_send_ok :: "ten_remote \<Rightarrow> ten_msg \<Rightarrow> string option" where
  "example_send_ok remote msg = None"

definition example_send_fails :: "ten_remote \<Rightarrow> ten_msg \<Rightarrow> string option" where
  "example_send_fails remote msg = Some ''send failed''"

definition example_ctx :: "ten_msg \<Rightarrow> ten_engine_on_protocol_created_ctx" where
  "example_ctx cmd =
     \<lparr>ctx_cb = Some ten_engine_connect_to_remote_after_remote_is_created, ctx_user_data = cmd\<rparr>"

section \<open>Properties\<close>

lemmas example_defs = example_connection_def example_remote_def example_cmd_def example_engine_def

subsection \<open>The order on URIs\<close>

lemma equal_or_smaller_refl: "ten_c_string_is_equal_or_smaller a a"
  by (induction a) auto

lemma equal_or_smaller_total:
  "ten_c_string_is_equal_or_smaller a b \<or> ten_c_string_is_equal_or_smaller b a"
  by (induction a b rule: ten_c_string_is_equal_or_smaller.induct) auto

lemma equal_or_smaller_antisym:
  "ten_c_string_is_equal_or_smaller a b \<Longrightarrow> ten_c_string_is_equal_or_smaller b a \<Longrightarrow> a = b"
proof (induction a b rule: ten_c_string_is_equal_or_smaller.induct)
  case (1 b)
  then show ?case by (cases b) auto
next
  case (2 x a)
  then show ?case by simp
next
  case (3 x a y b)
  then show ?case by (auto split: if_splits)
qed

lemma smaller_not_equal_or_smaller:
  "c_string_is_smaller a b \<Longrightarrow> \<not> ten_c_string_is_equal_or_smaller b a"
  unfolding c_string_is_smaller_def using equal_or_smaller_antisym by blast

lemma check_remote_is_existed_fst:
  "fst (ten_engine_check_remote_is_existed self uri) =
     (case ten_engine_find_remote self uri of
        Some remote \<Rightarrow> Some remote
      | None \<Rightarrow> ten_engine_find_weak_remote self uri)"
  by (simp add: ten_engine_check_remote_is_existed_def ten_engine_find_remote_def
      ten_engine_find_weak_remote_def ten_list_find_ptr_custom_def ten_remote_is_uri_equal_to_def
      split: option.splits)

lemma check_remote_is_existed_snd: "snd (ten_engine_check_remote_is_existed self uri) = self"
  by (simp add: ten_engine_check_remote_is_existed_def split: option.splits)

lemma check_remote_is_duplicated_eq:
  "ten_engine_check_remote_is_duplicated self uri =
     (fst (ten_engine_check_remote_is_existed self uri) \<noteq> None \<and>
      ten_c_string_is_equal_or_smaller uri (app_uri (app self)), self)"
proof -
  obtain r s where rs: "ten_engine_check_remote_is_existed self uri = (r, s)"
    by (cases "ten_engine_check_remote_is_existed self uri")
  from check_remote_is_existed_snd [of self uri] rs have "s = self" by simp
  with rs show ?thesis
    by (cases r) (simp_all add: ten_engine_check_remote_is_duplicated_def ten_app_get_uri_def)
qed

subsection \<open>The duplicate check\<close>

text \<open>
  C1, as stated, says that the check answers true on the engine whose own URI is smaller
  than the peer's and false on the engine whose own URI is larger. It does neither: the
  engine \<open>''A''\<close> holding a remote for \<open>''B''\<close> answers false, although \<open>''A''\<close> is smaller
  than \<open>''B''\<close>, and the engine \<open>''C''\<close> holding a remote for \<open>''B''\<close> answers true.
\<close>

theorem check_remote_is_duplicated_smaller_local_counterexample:
  "c_string_is_smaller ''A'' ''B'' \<and>
   fst (ten_engine_check_remote_is_existed
          (example_engine ''A'' [''B'' \<mapsto> example_remote 7 ''B''] []) ''B'') \<noteq> None \<and>
   ten_app_get_uri (app (example_engine ''A'' [''B'' \<mapsto> example_remote 7 ''B''] [])) = ''A'' \<and>
   \<not> fst (ten_engine_check_remote_is_duplicated
            (example_engine ''A'' [''B'' \<mapsto> example_remote 7 ''B''] []) ''B'') \<and>
   c_string_is_smaller ''B'' ''C'' \<and>
   fst (ten_engine_check_remote_is_existed
          (example_engine ''C'' [''B'' \<mapsto> example_remote 7 ''B''] []) ''B'') \<noteq> None \<and>
   ten_app_get_uri (app (example_engine ''C'' [''B'' \<mapsto> example_remote 7 ''B''] [])) = ''C'' \<and>
   fst (ten_engine_check_remote_is_duplicated
          (example_engine ''C'' [''B'' \<mapsto> example_remote 7 ''B''] []) ''B'')"
  by (simp add: example_defs c_string_is_smaller_def ten_engine_check_remote_is_existed_def
      ten_engine_check_remote_is_duplicated_def ten_hashtable_find_string_def ten_app_get_uri_def)

text \<open>
  C1, amended: when a remote (strong or weak) for the peer URI exists,
  \<open>ten_engine_check_remote_is_duplicated\<close> answers true on the engine whose own URI is
  lexicographically larger than the peer URI and false on the engine whose own URI is
  smaller. The outbound channel of the larger-URI app is the duplicate; the channel from
  the smaller-URI app to the larger-URI app is kept, as the comment above the function says.
\<close>

theorem check_remote_is_duplicated_tiebreak:
  assumes "fst (ten_engine_check_remote_is_existed self peer_uri) \<noteq> None"
  shows "(c_string_is_smaller peer_uri (ten_app_get_uri (app self)) \<longrightarrow>
            fst (ten_engine_check_remote_is_duplicated self peer_uri)) \<and>
         (c_string_is_smaller (ten_app_get_uri (app self)) peer_uri \<longrightarrow>
            \<not> fst (ten_engine_check_remote_is_duplicated self peer_uri))"
  using assms smaller_not_equal_or_smaller [of "app_uri (app self)" peer_uri]
  by (auto simp: check_remote_is_duplicated_eq c_string_is_smaller_def ten_app_get_uri_def)

theorem check_remote_is_duplicated_tiebreak_witness:
  "c_string_is_smaller ''B'' ''C'' \<and> c_string_is_smaller ''A'' ''B'' \<and>
   fst (ten_engine_check_remote_is_duplicated
          (example_engine ''C'' Map.empty [example_remote 7 ''B'']) ''B'') \<and>
   \<not> fst (ten_engine_check_remote_is_duplicated
            (example_engine ''A'' Map.empty [example_remote 7 ''B'']) ''B'')"
proof -
  have ex: "fst (ten_engine_check_remote_is_existed
                   (example_engine u Map.empty [example_remote 7 ''B'']) ''B'') \<noteq> None" for u
    by (simp add: example_defs ten_engine_check_remote_is_existed_def
        ten_hashtable_find_string_def ten_list_find_ptr_custom_def ten_remote_is_uri_equal_to_def)
  have s1: "c_string_is_smaller ''B'' ''C''" and s2: "c_string_is_smaller ''A'' ''B''"
    by (simp_all add: c_string_is_smaller_def)
  have u: "ten_app_get_uri (app (example_engine u Map.empty [example_remote 7 ''B''])) = u" for u
    by (simp add: example_defs ten_app_get_uri_def)
  show ?thesis
    using check_remote_is_duplicated_tiebreak [OF ex [of "''C''"]]
      check_remote_is_duplicated_tiebreak [OF ex [of "''A''"]] s1 s2
    by (simp add: u)
qed

text \<open>
  C2: \<open>ten_engine_check_remote_is_existed\<close> looks the URI up in the strong table first and
  in the weak list second; \<open>ten_engine_check_remote_is_duplicated\<close> answers true exactly when
  a remote was found and the peer URI is equal to or smaller than the local URI, false in
  every other case, and leaves the engine as it was.
\<close>

theorem check_remote_is_duplicated_procedure:
  "fst (ten_engine_check_remote_is_existed self peer_uri) =
     (case ten_engine_find_remote self peer_uri of
        Some remote \<Rightarrow> Some remote
      | None \<Rightarrow> ten_engine_find_weak_remote self peer_uri) \<and>
   (fst (ten_engine_check_remote_is_duplicated self peer_uri) \<longleftrightarrow>
      fst (ten_engine_check_remote_is_existed self peer_uri) \<noteq> None \<and>
      ten_c_string_is_equal_or_smaller peer_uri (ten_app_get_uri (app self))) \<and>
   snd (ten_engine_check_remote_is_duplicated self peer_uri) = self"
  by (simp add: check_remote_is_existed_fst check_remote_is_duplicated_eq ten_app_get_uri_def)

subsection \<open>Routing\<close>

text \<open>
  C3: a command with exactly one destination whose URI has no strong remote is sent on no
  remote, whether or not a weak remote for the URI exists; the only effect is the local
  dispatch of a command result with status ERROR and the detail
  "Could not find suitable remote based on uri: " followed by the destination URI.
\<close>

theorem route_cmd_without_strong_remote:
  assumes "ten_msg_is_cmd msg"
    and "ten_msg_get_dest_cnt msg = 1"
    and "ten_msg_get_first_dest_uri msg = Some dest_uri"
    and "ten_engine_find_remote self dest_uri = None"
  shows "ten_engine_route_msg_to_remote ten_remote_send_msg self msg =
           Some (self, [EngineCreateCmdResultAndDispatch msg TEN_STATUS_CODE_ERROR
                          (''Could not find suitable remote based on uri: '' @ dest_uri)])"
  using assms by (simp add: ten_engine_route_msg_to_remote_def)

theorem route_cmd_without_strong_remote_witness:
  "ten_engine_find_weak_remote (example_engine ''A'' Map.empty [example_remote 7 ''C'']) ''C''
     = Some (example_remote 7 ''C'') \<and>
   ten_engine_route_msg_to_remote example_send_ok
       (example_engine ''A'' Map.empty [example_remote 7 ''C''])
       (example_cmd TEN_MSG_TYPE_CMD ''C'') =
     Some (example_engine ''A'' Map.empty [example_remote 7 ''C''],
           [EngineCreateCmdResultAndDispatch (example_cmd TEN_MSG_TYPE_CMD ''C'')
              TEN_STATUS_CODE_ERROR ''Could not find suitable remote based on uri: C''])"
proof -
  have 1: "ten_msg_is_cmd (example_cmd TEN_MSG_TYPE_CMD ''C'')"
    by (simp add: ten_msg_is_cmd_def example_cmd_def)
  have 2: "ten_msg_get_dest_cnt (example_cmd TEN_MSG_TYPE_CMD ''C'') = 1"
    by (simp add: ten_msg_get_dest_cnt_def example_cmd_def)
  have 3: "ten_msg_get_first_dest_uri (example_cmd TEN_MSG_TYPE_CMD ''C'') = Some ''C''"
    by (simp add: ten_msg_get_first_dest_uri_def example_cmd_def)
  have 4: "ten_engine_find_remote (example_engine ''A'' Map.empty [example_remote 7 ''C'']) ''C''
             = None"
    by (simp add: ten_engine_find_remote_def ten_hashtable_find_string_def example_engine_def)
  have 5: "ten_engine_find_weak_remote (example_engine ''A'' Map.empty [example_remote 7 ''C''])
             ''C'' = Some (example_remote 7 ''C'')"
    by (simp add: ten_engine_find_weak_remote_def example_engine_def example_remote_def)
  show ?thesis
    using route_cmd_without_strong_remote [OF 1 2 3 4, of example_send_ok] 5 by simp
qed

text \<open>
  C10: a message that is not a command, with one destination, yields no synthetic command
  result: when no strong remote has the destination URI nothing happens at all, and when
  the send on the found remote fails the failed send is the only effect. Whatever the
  message, a synthetic result in the effects means that the message is a command.
\<close>

theorem route_non_cmd_dropped:
  assumes "\<not> ten_msg_is_cmd msg"
    and "ten_msg_get_dest_cnt msg = 1"
    and "ten_msg_get_first_dest_uri msg = Some dest_uri"
  shows "(ten_engine_find_remote self dest_uri = None \<longrightarrow>
            ten_engine_route_msg_to_remote ten_remote_send_msg self msg = Some (self, [])) \<and>
         (\<forall>remote send_err.
            ten_engine_find_remote self dest_uri = Some remote \<and>
            ten_remote_send_msg remote msg = Some send_err \<longrightarrow>
            ten_engine_route_msg_to_remote ten_remote_send_msg self msg =
              Some (self, [RemoteSendMsg remote msg])) \<and>
         (\<forall>any_msg self1 effs m status detail.
            ten_engine_route_msg_to_remote ten_remote_send_msg self any_msg = Some (self1, effs) \<and>
            EngineCreateCmdResultAndDispatch m status detail \<in> set effs \<longrightarrow>
            ten_msg_is_cmd any_msg)"
  using assms
  by (auto simp: ten_engine_route_msg_to_remote_def split: if_splits option.splits prod.splits)

theorem route_non_cmd_dropped_witness:
  "\<not> ten_msg_is_cmd (example_cmd TEN_MSG_TYPE_DATA ''C'') \<and>
   ten_engine_route_msg_to_remote example_send_fails
       (example_engine ''A'' Map.empty [])
       (example_cmd TEN_MSG_TYPE_DATA ''C'') =
     Some (example_engine ''A'' Map.empty [], []) \<and>
   ten_engine_route_msg_to_remote example_send_fails
       (example_engine ''A'' [''C'' \<mapsto> example_remote 7 ''C''] [])
       (example_cmd TEN_MSG_TYPE_DATA ''C'') =
     Some (example_engine ''A'' [''C'' \<mapsto> example_remote 7 ''C''] [],
           [RemoteSendMsg (example_remote 7 ''C'') (example_cmd TEN_MSG_TYPE_DATA ''C'')])"
proof -
  have 1: "\<not> ten_msg_is_cmd (example_cmd TEN_MSG_TYPE_DATA ''C'')"
    by (simp add: ten_msg_is_cmd_def example_cmd_def)
  have 2: "ten_msg_get_dest_cnt (example_cmd TEN_MSG_TYPE_DATA ''C'') = 1"
    by (simp add: ten_msg_get_dest_cnt_def example_cmd_def)
  have 3: "ten_msg_get_first_dest_uri (example_cmd TEN_MSG_TYPE_DATA ''C'') = Some ''C''"
    by (simp add: ten_msg_get_first_dest_uri_def example_cmd_def)
  have 4: "ten_engine_find_remote (example_engine ''A'' Map.empty []) ''C'' = None"
    by (simp add: ten_engine_find_remote_def ten_hashtable_find_string_def example_engine_def)
  have 5: "ten_engine_find_remote (example_engine ''A'' [''C'' \<mapsto> example_remote 7 ''C''] []) ''C''
             = Some (example_remote 7 ''C'')"
    by (simp add: ten_engine_find_remote_def ten_hashtable_find_string_def example_engine_def)
  have 6: "example_send_fails (example_remote 7 ''C'') (example_cmd TEN_MSG_TYPE_DATA ''C'')
             = Some ''send failed''"
    by (simp add: example_send_fails_def)
  show ?thesis
    using route_non_cmd_dropped [OF 1 2 3, of "example_engine ''A'' Map.empty []" example_send_fails]
      route_non_cmd_dropped [OF 1 2 3,
        of "example_engine ''A'' [''C'' \<mapsto> example_remote 7 ''C''] []" example_send_fails]
      1 4 5 6
    by simp
qed

subsection \<open>Receiving\<close>

lemma annotate_keeps_type:
  "ten_msg_get_type
     (ten_msg_set_dest_graph_if_empty_or_predefined_graph_name
        (ten_msg_set_src_graph_id_if_empty msg engine) engine infos) = msg_type msg"
  by (simp add: ten_msg_get_type_def ten_msg_set_dest_graph_if_empty_or_predefined_graph_name_def
      ten_msg_set_src_graph_id_if_empty_def)

text \<open>
  C4: a \<open>CMD_START_GRAPH\<close> that arrives from a remote is answered, over that remote's
  connection, with a command result of status ERROR and detail
  "Receive a start_graph cmd after graph is built."; it is not dispatched, and the two
  tables stay as they were. A message of any other type is handed to the engine's
  dispatch, with its source and destination graph filled in.
\<close>

theorem receive_start_graph_after_graph_is_built:
  "(msg_type msg = TEN_MSG_TYPE_CMD_START_GRAPH \<longrightarrow>
      (\<exists>cmd_result.
         ten_engine_receive_msg_from_remote engine remote msg =
           (True, engine, [ConnectionSendMsg (remote_connection remote) cmd_result]) \<and>
         status_code cmd_result = TEN_STATUS_CODE_ERROR \<and>
         ten_msg_get_property cmd_result TEN_STR_DETAIL =
           Some ''Receive a start_graph cmd after graph is built.'')) \<and>
   (msg_type msg \<noteq> TEN_MSG_TYPE_CMD_START_GRAPH \<longrightarrow>
      ten_engine_receive_msg_from_remote engine remote msg =
        (True, engine,
         [EngineDispatchMsg
            (ten_msg_set_dest_graph_if_empty_or_predefined_graph_name
               (ten_msg_set_src_graph_id_if_empty msg engine) engine
               (predefined_graph_infos (app engine)))])) \<and>
   (\<forall>m. msg_type msg = TEN_MSG_TYPE_CMD_START_GRAPH \<longrightarrow>
      EngineDispatchMsg m \<notin> set (snd (snd (ten_engine_receive_msg_from_remote engine remote msg)))) \<and>
   remotes (fst (snd (ten_engine_receive_msg_from_remote engine remote msg))) = remotes engine \<and>
   weak_remotes (fst (snd (ten_engine_receive_msg_from_remote engine remote msg))) =
     weak_remotes engine"
  by (cases "msg_type msg")
    (simp_all add: ten_engine_receive_msg_from_remote_def annotate_keeps_type Let_def
      ten_msg_set_property_def ten_cmd_result_create_from_cmd_def ten_msg_get_property_def)

theorem receive_start_graph_after_graph_is_built_witness:
  "(\<exists>cmd_result.
      ten_engine_receive_msg_from_remote (example_engine ''A'' [''B'' \<mapsto> example_remote 7 ''B''] [])
          (example_remote 7 ''B'') (example_cmd TEN_MSG_TYPE_CMD_START_GRAPH ''A'') =
        (True, example_engine ''A'' [''B'' \<mapsto> example_remote 7 ''B''] [],
         [ConnectionSendMsg (example_connection ''B'') cmd_result]) \<and>
      status_code cmd_result = TEN_STATUS_CODE_ERROR \<and>
      ten_msg_get_property cmd_result TEN_STR_DETAIL =
        Some ''Receive a start_graph cmd after graph is built.'') \<and>
   ten_engine_receive_msg_from_remote (example_engine ''A'' [''B'' \<mapsto> example_remote 7 ''B''] [])
       (example_remote 7 ''B'') (example_cmd TEN_MSG_TYPE_DATA ''A'') =
     (True, example_engine ''A'' [''B'' \<mapsto> example_remote 7 ''B''] [],
      [EngineDispatchMsg
         \<lparr>msg_type = TEN_MSG_TYPE_DATA, msg_name = ''x'', src_graph_id = ''graph'',
          dest_loc = [\<lparr>loc_app_uri = ''A'', loc_graph_id = ''graph''\<rparr>]\<rparr>])"
proof -
  have t1: "msg_type (example_cmd TEN_MSG_TYPE_CMD_START_GRAPH ''A'') = TEN_MSG_TYPE_CMD_START_GRAPH"
    and t2: "msg_type (example_cmd TEN_MSG_TYPE_DATA ''A'') \<noteq> TEN_MSG_TYPE_CMD_START_GRAPH"
    by (simp_all add: example_cmd_def)
  have c: "remote_connection (example_remote 7 ''B'') = example_connection ''B''"
    by (simp add: example_remote_def)
  have a: "ten_msg_set_dest_graph_if_empty_or_predefined_graph_name
             (ten_msg_set_src_graph_id_if_empty (example_cmd TEN_MSG_TYPE_DATA ''A'')
                (example_engine ''A'' [''B'' \<mapsto> example_remote 7 ''B''] []))
             (example_engine ''A'' [''B'' \<mapsto> example_remote 7 ''B''] [])
             (predefined_graph_infos (app (example_engine ''A'' [''B'' \<mapsto> example_remote 7 ''B''] [])))
           = \<lparr>msg_type = TEN_MSG_TYPE_DATA, msg_name = ''x'', src_graph_id = ''graph'',
              dest_loc = [\<lparr>loc_app_uri = ''A'', loc_graph_id = ''graph''\<rparr>]\<rparr>"
    by (simp add: ten_msg_set_dest_graph_if_empty_or_predefined_graph_name_def
        ten_msg_set_src_graph_id_if_empty_def example_cmd_def example_engine_def)
  from receive_start_graph_after_graph_is_built
         [of "example_cmd TEN_MSG_TYPE_CMD_START_GRAPH ''A''"
             "example_engine ''A'' [''B'' \<mapsto> example_remote 7 ''B''] []" "example_remote 7 ''B''"]
       t1 c
  have p1: "\<exists>cmd_result.
      ten_engine_receive_msg_from_remote (example_engine ''A'' [''B'' \<mapsto> example_remote 7 ''B''] [])
          (example_remote 7 ''B'') (example_cmd TEN_MSG_TYPE_CMD_START_GRAPH ''A'') =
        (True, example_engine ''A'' [''B'' \<mapsto> example_remote 7 ''B''] [],
         [ConnectionSendMsg (example_connection ''B'') cmd_result]) \<and>
      status_code cmd_result = TEN_STATUS_CODE_ERROR \<and>
      ten_msg_get_property cmd_result TEN_STR_DETAIL =
        Some ''Receive a start_graph cmd after graph is built.''"
    by simp
  from receive_start_graph_after_graph_is_built
         [of "example_cmd TEN_MSG_TYPE_DATA ''A''"
             "example_engine ''A'' [''B'' \<mapsto> example_remote 7 ''B''] []" "example_remote 7 ''B''"]
       t2 a
  have p2: "ten_engine_receive_msg_from_remote (example_engine ''A'' [''B'' \<mapsto> example_remote 7 ''B''] [])
       (example_remote 7 ''B'') (example_cmd TEN_MSG_TYPE_DATA ''A'') =
     (True, example_engine ''A'' [''B'' \<mapsto> example_remote 7 ''B''] [],
      [EngineDispatchMsg
         \<lparr>msg_type = TEN_MSG_TYPE_DATA, msg_name = ''x'', src_graph_id = ''graph'',
          dest_loc = [\<lparr>loc_app_uri = ''A'', loc_graph_id = ''graph''\<rparr>]\<rparr>])"
    by simp
  from p1 p2 show ?thesis by blast
qed

subsection \<open>Asynchronous creation\<close>

text \<open>
  C7: \<open>ten_engine_create_remote_async\<close> returns what the addon registry answers. On
  success the engine differs only in \<open>has_uncompleted_async_task\<close>, now true; on failure
  the context is freed, the engine is unchanged and the result is false.
\<close>

theorem create_remote_async_result:
  "fst (ten_engine_create_remote_async ten_addon_create_protocol_with_uri self uri cb cb_data)
     = ten_addon_create_protocol_with_uri uri \<and>
   (ten_addon_create_protocol_with_uri uri \<longrightarrow>
      ten_engine_create_remote_async ten_addon_create_protocol_with_uri self uri cb cb_data =
        (True, self\<lparr>has_uncompleted_async_task := True\<rparr>,
         [CtxCreate, AddonCreateProtocolWithUri uri])) \<and>
   (\<not> ten_addon_create_protocol_with_uri uri \<longrightarrow>
      ten_engine_create_remote_async ten_addon_create_protocol_with_uri self uri cb cb_data =
        (False, self, [CtxCreate, AddonCreateProtocolWithUri uri, CtxDestroy]))"
  by (simp add: ten_engine_create_remote_async_def Let_def)

theorem create_remote_async_result_witness:
  "ten_engine_create_remote_async example_addon (example_engine ''A'' Map.empty []) ''B''
       ten_engine_connect_to_remote_after_remote_is_created
       (example_cmd TEN_MSG_TYPE_CMD_START_GRAPH ''B'') =
     (True, (example_engine ''A'' Map.empty [])\<lparr>has_uncompleted_async_task := True\<rparr>,
      [CtxCreate, AddonCreateProtocolWithUri ''B'']) \<and>
   ten_engine_create_remote_async example_addon (example_engine ''A'' Map.empty []) ''Z''
       ten_engine_connect_to_remote_after_remote_is_created
       (example_cmd TEN_MSG_TYPE_CMD_START_GRAPH ''Z'') =
     (False, example_engine ''A'' Map.empty [],
      [CtxCreate, AddonCreateProtocolWithUri ''Z'', CtxDestroy])"
  using create_remote_async_result [of example_addon "example_engine ''A'' Map.empty []" "''B''"
          ten_engine_connect_to_remote_after_remote_is_created
          "example_cmd TEN_MSG_TYPE_CMD_START_GRAPH ''B''"]
    create_remote_async_result [of example_addon "example_engine ''A'' Map.empty []" "''Z''"
          ten_engine_connect_to_remote_after_remote_is_created
          "example_cmd TEN_MSG_TYPE_CMD_START_GRAPH ''Z''"]
  by (simp add: example_addon_def)

subsection \<open>Closing a remote\<close>

lemma remove_ptr_found:
  "fst (ten_list_remove_ptr xs remote) \<longleftrightarrow>
     find (\<lambda>r. remote_ptr r = remote_ptr remote) xs \<noteq> None"
  by (induction xs) auto

lemma remove_ptr_not_found:
  "\<not> fst (ten_list_remove_ptr xs remote) \<Longrightarrow> snd (ten_list_remove_ptr xs remote) = xs"
  by (induction xs) (auto split: if_splits)

lemma remove_ptr_length:
  "fst (ten_list_remove_ptr xs remote) \<Longrightarrow>
     Suc (length (snd (ten_list_remove_ptr xs remote))) = length xs"
  by (induction xs) (auto split: if_splits)

lemma del_weak_remote_fst:
  "fst (ten_engine_del_weak_remote self remote) = ten_engine_check_remote_is_weak self remote"
  by (simp add: ten_engine_del_weak_remote_def ten_engine_check_remote_is_weak_def
      remove_ptr_found Let_def)

text \<open>
  C9: when the closed remote sits in the weak list or is the entry of the strong table for
  its URI, \<open>ten_engine_on_remote_closed\<close> removes it from that table and then, if the engine
  is closing, calls \<open>ten_engine_on_close\<close>; if the engine is not closing it calls
  \<open>ten_engine_close_async\<close> exactly when the remote was not weak and \<open>long_running_mode\<close> is
  false. Closing a weak remote never triggers \<open>ten_engine_close_async\<close>.
\<close>

theorem on_remote_closed_lifecycle:
  assumes "ten_engine_weak_remotes_cnt_in_specified_uri self (remote_uri remote) \<le> 1"
    and "ten_engine_check_remote_is_weak self remote \<or>
         (\<exists>strong_remote. ten_engine_find_remote self (remote_uri remote) = Some strong_remote \<and>
            remote_ptr strong_remote = remote_ptr remote)"
  shows "\<exists>self1 effs.
           ten_engine_on_remote_closed remote self = Some (self1, effs) \<and>
           (if ten_engine_check_remote_is_weak self remote
            then Suc (length (weak_remotes self1)) = length (weak_remotes self) \<and>
                 remotes self1 = remotes self
            else ten_engine_find_remote self1 (remote_uri remote) = None \<and>
                 weak_remotes self1 = weak_remotes self) \<and>
           (if is_closing self
            then EngineOnClose \<in> set effs \<and> EngineCloseAsync \<notin> set effs
            else EngineOnClose \<notin> set effs \<and>
                 (EngineCloseAsync \<in> set effs \<longleftrightarrow>
                    \<not> ten_engine_check_remote_is_weak self remote \<and> \<not> long_running_mode self))"
proof (cases "ten_engine_check_remote_is_weak self remote")
  case True
  then have f: "fst (ten_list_remove_ptr (weak_remotes self) remote)"
    by (simp add: ten_engine_check_remote_is_weak_def remove_ptr_found)
  with True assms(1) remove_ptr_length [OF f] show ?thesis
    by (simp add: ten_engine_on_remote_closed_def ten_engine_del_weak_remote_def Let_def)
next
  case False
  then have f: "\<not> fst (ten_list_remove_ptr (weak_remotes self) remote)"
    by (simp add: ten_engine_check_remote_is_weak_def remove_ptr_found)
  from False assms(2) obtain strong_remote where
    s: "remotes self (remote_uri remote) = Some strong_remote"
      "remote_ptr strong_remote = remote_ptr remote"
    by (auto simp: ten_engine_find_remote_def ten_hashtable_find_string_def)
  from False f s assms(1) remove_ptr_not_found [OF f] show ?thesis
    by (simp add: ten_engine_on_remote_closed_def ten_engine_del_weak_remote_def Let_def
        ten_hashtable_find_string_def ten_hashtable_del_def ten_engine_find_remote_def)
qed

theorem on_remote_closed_lifecycle_witness:
  "(\<exists>self1 effs.
      ten_engine_on_remote_closed (example_remote 7 ''B'')
          (example_engine ''A'' [''B'' \<mapsto> example_remote 7 ''B''] []) = Some (self1, effs) \<and>
      ten_engine_find_remote self1 ''B'' = None \<and>
      EngineOnClose \<notin> set effs \<and> EngineCloseAsync \<in> set effs) \<and>
   (\<exists>self1 effs.
      ten_engine_on_remote_closed (example_remote 7 ''Z'')
          (example_engine ''A'' Map.empty [example_remote 7 ''Z'']) = Some (self1, effs) \<and>
      weak_remotes self1 = [] \<and>
      EngineOnClose \<notin> set effs \<and> EngineCloseAsync \<notin> set effs) \<and>
   (\<exists>self1 effs.
      ten_engine_on_remote_closed (example_remote 7 ''B'')
          ((example_engine ''A'' [''B'' \<mapsto> example_remote 7 ''B''] [])\<lparr>is_closing := True\<rparr>)
        = Some (self1, effs) \<and>
      EngineOnClose \<in> set effs \<and> EngineCloseAsync \<notin> set effs)"
proof -
  let ?strong = "example_engine ''A'' [''B'' \<mapsto> example_remote 7 ''B''] []"
  let ?weak = "example_engine ''A'' Map.empty [example_remote 7 ''Z'']"
  have cnt: "ten_engine_weak_remotes_cnt_in_specified_uri ?strong
               (remote_uri (example_remote 7 ''B'')) \<le> 1"
    "ten_engine_weak_remotes_cnt_in_specified_uri ?weak
               (remote_uri (example_remote 7 ''Z'')) \<le> 1"
    "ten_engine_weak_remotes_cnt_in_specified_uri (?strong\<lparr>is_closing := True\<rparr>)
               (remote_uri (example_remote 7 ''B'')) \<le> 1"
    by (simp_all add: ten_engine_weak_remotes_cnt_in_specified_uri_def
        ten_list_find_ptr_cnt_custom_def example_engine_def)
  have w1: "\<not> ten_engine_check_remote_is_weak ?strong (example_remote 7 ''B'')"
    and w2: "ten_engine_check_remote_is_weak ?weak (example_remote 7 ''Z'')"
    and w3: "\<not> ten_engine_check_remote_is_weak (?strong\<lparr>is_closing := True\<rparr>)
               (example_remote 7 ''B'')"
    by (simp_all add: ten_engine_check_remote_is_weak_def example_engine_def)
  have s: "ten_engine_find_remote ?strong (remote_uri (example_remote 7 ''B''))
             = Some (example_remote 7 ''B'')"
    "ten_engine_find_remote (?strong\<lparr>is_closing := True\<rparr>) (remote_uri (example_remote 7 ''B''))
             = Some (example_remote 7 ''B'')"
    by (simp_all add: ten_engine_find_remote_def ten_hashtable_find_string_def
        example_engine_def example_remote_def)
  have u: "remote_uri (example_remote 7 ''B'') = ''B''"
    by (simp add: example_remote_def)
  have f: "\<not> is_closing ?strong" "\<not> long_running_mode ?strong" "\<not> is_closing ?weak"
    "length (weak_remotes ?weak) = 1"
    by (simp_all add: example_engine_def)
  from on_remote_closed_lifecycle [OF cnt(1)] s(1)
  have p1: "\<exists>self1 effs.
      ten_engine_on_remote_closed (example_remote 7 ''B'') ?strong = Some (self1, effs) \<and>
      ten_engine_find_remote self1 ''B'' = None \<and>
      EngineOnClose \<notin> set effs \<and> EngineCloseAsync \<in> set effs"
    using w1 f u by auto
  from on_remote_closed_lifecycle [OF cnt(2)] w2
  have p2: "\<exists>self1 effs.
      ten_engine_on_remote_closed (example_remote 7 ''Z'') ?weak = Some (self1, effs) \<and>
      weak_remotes self1 = [] \<and>
      EngineOnClose \<notin> set effs \<and> EngineCloseAsync \<notin> set effs"
    using f by auto
  from on_remote_closed_lifecycle [OF cnt(3)] s(2)
  have p3: "\<exists>self1 effs.
      ten_engine_on_remote_closed (example_remote 7 ''B'') (?strong\<lparr>is_closing := True\<rparr>)
        = Some (self1, effs) \<and>
      EngineOnClose \<in> set effs \<and> EngineCloseAsync \<notin> set effs"
    using w3 by auto
  from p1 p2 p3 show ?thesis by blast
qed

subsection \<open>The per-hop \<open>start_graph\<close>\<close>


lemma check_remote_is_duplicated_cases:
  "ten_engine_check_remote_is_duplicated self uri = (True, self) \<or>
   ten_engine_check_remote_is_duplicated self uri = (False, self)"
  by (auto simp: check_remote_is_duplicated_eq)



subsection \<open>The continuation of a creation\<close>

lemma after_remote_is_created_keeps_flag:
  assumes "ten_engine_connect_to_remote_after_remote_is_created engine remote_opt cmd
             = Some (engine1, effs)"
  shows "has_uncompleted_async_task engine1 = has_uncompleted_async_task engine"
  using assms check_remote_is_duplicated_cases [of engine "remote_uri (the remote_opt)"]
  by (auto simp: ten_engine_connect_to_remote_after_remote_is_created_def
      ten_engine_add_weak_remote_def split: option.splits if_splits)

text \<open>
  C6, as stated, says that the continuation clears \<open>has_uncompleted_async_task\<close> before it
  tests \<open>is_closing\<close>, so that the flag is false after it returns on both paths. On a closing
  engine with the flag set, the continuation returns with the flag still set.
\<close>

theorem on_protocol_created_closing_counterexample:
  "is_closing ((example_engine ''A'' Map.empty [])
                 \<lparr>is_closing := True, has_uncompleted_async_task := True\<rparr>) \<and>
   (\<exists>effs. ten_engine_on_protocol_created 9
       ((example_engine ''A'' Map.empty [])\<lparr>is_closing := True, has_uncompleted_async_task := True\<rparr>)
       \<lparr>protocol_ptr = 3, protocol_uri = ''B''\<rparr>
       (example_ctx (example_cmd TEN_MSG_TYPE_CMD_START_GRAPH ''B'')) =
     Some ((example_engine ''A'' Map.empty [])
             \<lparr>is_closing := True, has_uncompleted_async_task := True\<rparr>, effs)) \<and>
   has_uncompleted_async_task ((example_engine ''A'' Map.empty [])
                 \<lparr>is_closing := True, has_uncompleted_async_task := True\<rparr>)"
  by (simp add: ten_engine_on_protocol_created_def example_ctx_def example_engine_def
      ten_engine_connect_to_remote_after_remote_is_created_def ten_msg_get_first_dest_uri_def
      example_cmd_def)

text \<open>
  C6, amended: \<open>ten_engine_on_protocol_created\<close> tests \<open>is_closing\<close> first. On the
  \<open>is_closing\<close> path it does not write \<open>has_uncompleted_async_task\<close>: it calls the callback
  with no remote on the engine as it is, frees the context, attaches
  \<open>ten_engine_on_protocol_closed\<close> to the protocol and closes the protocol. On the normal
  path it clears the flag first, so that the callback is called on an engine whose flag is
  false, with the remote built on the new connection, and frees the context afterwards.
  \<open>ten_engine_on_protocol_closed\<close> clears the flag of a closing engine. With no callback, or
  with \<open>ten_engine_connect_to_remote_after_remote_is_created\<close>, the only callback of this
  file, which does not write the flag, the flag after the continuation returns is false on
  the normal path and as it was on the \<open>is_closing\<close> path.
\<close>

theorem on_protocol_created_flag:
  "(is_closing self \<longrightarrow>
      ten_engine_on_protocol_created ptr self protocol ctx =
        (case ctx_cb ctx of
           None \<Rightarrow>
             Some (self, [CtxDestroy, ProtocolSetOnClosed protocol, ProtocolClose protocol])
         | Some cb \<Rightarrow>
             (case cb self None (ctx_user_data ctx) of
                None \<Rightarrow> None
              | Some (self1, effs) \<Rightarrow>
                  Some (self1,
                        effs @ [CtxDestroy, ProtocolSetOnClosed protocol, ProtocolClose protocol])))) \<and>
   (\<not> is_closing self \<longrightarrow>
      ten_engine_on_protocol_created ptr self protocol ctx =
        (let connection = \<lparr>connection_protocol = protocol, connection_uri = protocol_uri protocol,
                            migration_state = TEN_CONNECTION_MIGRATION_STATE_DONE\<rparr>;
             remote = \<lparr>remote_ptr = ptr, remote_uri = protocol_uri protocol,
                        remote_connection = connection\<rparr>
         in case ctx_cb ctx of
              None \<Rightarrow>
                Some (self\<lparr>has_uncompleted_async_task := False\<rparr>,
                      [ConnectionSetOnClosed connection remote, CtxDestroy])
            | Some cb \<Rightarrow>
                (case cb (self\<lparr>has_uncompleted_async_task := False\<rparr>) (Some remote)
                        (ctx_user_data ctx) of
                   None \<Rightarrow> None
                 | Some (self1, effs) \<Rightarrow>
                     Some (self1, ConnectionSetOnClosed connection remote # effs @ [CtxDestroy])))) \<and>
   ten_engine_on_protocol_closed protocol self =
     (if is_closing self
      then Some (self\<lparr>has_uncompleted_async_task := False\<rparr>,
                 [ProtocolRefDecRef protocol, EngineOnClose])
      else None) \<and>
   (ctx_cb ctx = None \<or>
    ctx_cb ctx = Some ten_engine_connect_to_remote_after_remote_is_created \<longrightarrow>
      (\<forall>self1 effs.
         ten_engine_on_protocol_created ptr self protocol ctx = Some (self1, effs) \<longrightarrow>
         has_uncompleted_async_task self1 =
           (is_closing self \<and> has_uncompleted_async_task self)))"
proof -
  have closing: "is_closing self \<longrightarrow>
      ten_engine_on_protocol_created ptr self protocol ctx =
        (case ctx_cb ctx of
           None \<Rightarrow>
             Some (self, [CtxDestroy, ProtocolSetOnClosed protocol, ProtocolClose protocol])
         | Some cb \<Rightarrow>
             (case cb self None (ctx_user_data ctx) of
                None \<Rightarrow> None
              | Some (self1, effs) \<Rightarrow>
                  Some (self1,
                        effs @ [CtxDestroy, ProtocolSetOnClosed protocol, ProtocolClose protocol])))"
    by (simp add: ten_engine_on_protocol_created_def split: option.splits)
  have normal: "\<not> is_closing self \<longrightarrow>
      ten_engine_on_protocol_created ptr self protocol ctx =
        (let connection = \<lparr>connection_protocol = protocol, connection_uri = protocol_uri protocol,
                            migration_state = TEN_CONNECTION_MIGRATION_STATE_DONE\<rparr>;
             remote = \<lparr>remote_ptr = ptr, remote_uri = protocol_uri protocol,
                        remote_connection = connection\<rparr>
         in case ctx_cb ctx of
              None \<Rightarrow>
                Some (self\<lparr>has_uncompleted_async_task := False\<rparr>,
                      [ConnectionSetOnClosed connection remote, CtxDestroy])
            | Some cb \<Rightarrow>
                (case cb (self\<lparr>has_uncompleted_async_task := False\<rparr>) (Some remote)
                        (ctx_user_data ctx) of
                   None \<Rightarrow> None
                 | Some (self1, effs) \<Rightarrow>
                     Some (self1, ConnectionSetOnClosed connection remote # effs @ [CtxDestroy])))"
    by (simp add: ten_engine_on_protocol_created_def ten_connection_create_def
        ten_connection_set_migration_state_def ten_remote_create_for_engine_def Let_def
        split: option.splits)
  have closed: "ten_engine_on_protocol_closed protocol self =
     (if is_closing self
      then Some (self\<lparr>has_uncompleted_async_task := False\<rparr>,
                 [ProtocolRefDecRef protocol, EngineOnClose])
      else None)"
    by (simp add: ten_engine_on_protocol_closed_def)
  have flag: "has_uncompleted_async_task self1 =
                (is_closing self \<and> has_uncompleted_async_task self)"
    if cb: "ctx_cb ctx = None \<or>
            ctx_cb ctx = Some ten_engine_connect_to_remote_after_remote_is_created"
      and res: "ten_engine_on_protocol_created ptr self protocol ctx = Some (self1, effs)"
    for self1 effs
    using cb
  proof
    assume "ctx_cb ctx = None"
    with res closing normal show ?thesis
      by (cases "is_closing self") (auto simp: Let_def)
  next
    assume c: "ctx_cb ctx = Some ten_engine_connect_to_remote_after_remote_is_created"
    show ?thesis
    proof (cases "is_closing self")
      case True
      with res closing c obtain effs0 where
        "ten_engine_connect_to_remote_after_remote_is_created self None (ctx_user_data ctx)
           = Some (self1, effs0)"
        by (auto split: option.splits)
      from after_remote_is_created_keeps_flag [OF this] True show ?thesis by simp
    next
      case False
      with res normal c obtain remote effs0 where
        "ten_engine_connect_to_remote_after_remote_is_created
           (self\<lparr>has_uncompleted_async_task := False\<rparr>) (Some remote) (ctx_user_data ctx)
           = Some (self1, effs0)"
        by (auto simp: Let_def split: option.splits)
      from after_remote_is_created_keeps_flag [OF this] False show ?thesis by simp
    qed
  qed
  from closing normal closed flag show ?thesis by blast
qed

theorem on_protocol_created_flag_witness:
  "ten_engine_on_protocol_created 9
       ((example_engine ''A'' Map.empty [])\<lparr>has_uncompleted_async_task := True\<rparr>)
       \<lparr>protocol_ptr = 3, protocol_uri = ''Z''\<rparr>
       (example_ctx (example_cmd TEN_MSG_TYPE_CMD_START_GRAPH ''Z'')) =
     Some (example_engine ''A'' Map.empty [example_remote 9 ''Z''],
           [ConnectionSetOnClosed (example_connection ''Z'') (example_remote 9 ''Z''),
            RemoteConnectTo (example_remote 9 ''Z'') (example_cmd TEN_MSG_TYPE_CMD_START_GRAPH ''Z''),
            SharedPtrDestroy (example_cmd TEN_MSG_TYPE_CMD_START_GRAPH ''Z''),
            CtxDestroy]) \<and>
   \<not> has_uncompleted_async_task (example_engine ''A'' Map.empty [example_remote 9 ''Z'']) \<and>
   ten_engine_on_protocol_created 9
       ((example_engine ''A'' Map.empty [])\<lparr>is_closing := True, has_uncompleted_async_task := True\<rparr>)
       \<lparr>protocol_ptr = 3, protocol_uri = ''Z''\<rparr>
       (example_ctx (example_cmd TEN_MSG_TYPE_CMD_START_GRAPH ''Z'')) =
     Some ((example_engine ''A'' Map.empty [])\<lparr>is_closing := True, has_uncompleted_async_task := True\<rparr>,
           [EngineReturnErrorForCmdStartGraph (example_cmd TEN_MSG_TYPE_CMD_START_GRAPH ''Z'')
              ''Failed to create remote (Z)'',
            SharedPtrDestroy (example_cmd TEN_MSG_TYPE_CMD_START_GRAPH ''Z''),
            CtxDestroy,
            ProtocolSetOnClosed \<lparr>protocol_ptr = 3, protocol_uri = ''Z''\<rparr>,
            ProtocolClose \<lparr>protocol_ptr = 3, protocol_uri = ''Z''\<rparr>]) \<and>
   has_uncompleted_async_task
     ((example_engine ''A'' Map.empty [])\<lparr>is_closing := True, has_uncompleted_async_task := True\<rparr>) \<and>
   ten_engine_on_protocol_closed \<lparr>protocol_ptr = 3, protocol_uri = ''Z''\<rparr>
       ((example_engine ''A'' Map.empty [])\<lparr>is_closing := True, has_uncompleted_async_task := True\<rparr>) =
     Some ((example_engine ''A'' Map.empty [])\<lparr>is_closing := True, has_uncompleted_async_task := False\<rparr>,
           [ProtocolRefDecRef \<lparr>protocol_ptr = 3, protocol_uri = ''Z''\<rparr>, EngineOnClose])"
proof -
  let ?cmd = "example_cmd TEN_MSG_TYPE_CMD_START_GRAPH ''Z''"
  let ?ctx = "example_ctx ?cmd"
  let ?p = "\<lparr>protocol_ptr = 3, protocol_uri = ''Z''\<rparr>"
  let ?open = "(example_engine ''A'' Map.empty [])\<lparr>has_uncompleted_async_task := True\<rparr>"
  let ?closing = "(example_engine ''A'' Map.empty [])
                    \<lparr>is_closing := True, has_uncompleted_async_task := True\<rparr>"
  have c: "\<not> is_closing ?open" "is_closing ?closing"
    by (simp_all add: example_engine_def)
  have cb: "ctx_cb ?ctx = Some ten_engine_connect_to_remote_after_remote_is_created"
    "ctx_user_data ?ctx = ?cmd"
    by (simp_all add: example_ctx_def)
  have a1: "ten_engine_connect_to_remote_after_remote_is_created
              (?open\<lparr>has_uncompleted_async_task := False\<rparr>) (Some (example_remote 9 ''Z'')) ?cmd =
            Some (example_engine ''A'' Map.empty [example_remote 9 ''Z''],
                  [RemoteConnectTo (example_remote 9 ''Z'') ?cmd, SharedPtrDestroy ?cmd])"
    by (simp add: ten_engine_connect_to_remote_after_remote_is_created_def example_engine_def
        example_cmd_def check_remote_is_duplicated_eq ten_engine_check_remote_is_existed_def
        ten_hashtable_find_string_def ten_list_find_ptr_custom_def ten_engine_add_weak_remote_def
        ten_list_push_ptr_back_def example_remote_def)
  have a2: "ten_engine_connect_to_remote_after_remote_is_created ?closing None ?cmd =
            Some (?closing,
                  [EngineReturnErrorForCmdStartGraph ?cmd ''Failed to create remote (Z)'',
                   SharedPtrDestroy ?cmd])"
    by (simp add: ten_engine_connect_to_remote_after_remote_is_created_def example_engine_def
        example_cmd_def ten_msg_get_first_dest_uri_def)
  have r: "\<lparr>remote_ptr = 9, remote_uri = ''Z'',
             remote_connection = \<lparr>connection_protocol = ?p, connection_uri = ''Z'',
                                   migration_state = TEN_CONNECTION_MIGRATION_STATE_DONE\<rparr>\<rparr>
           = example_remote 9 ''Z''"
    "\<lparr>connection_protocol = ?p, connection_uri = ''Z'',
      migration_state = TEN_CONNECTION_MIGRATION_STATE_DONE\<rparr> = example_connection ''Z''"
    by (simp_all add: example_remote_def example_connection_def)
  from on_protocol_created_flag [of ?open 9 ?p ?ctx] c(1) cb a1 r
  have p1: "ten_engine_on_protocol_created 9 ?open ?p ?ctx =
     Some (example_engine ''A'' Map.empty [example_remote 9 ''Z''],
           [ConnectionSetOnClosed (example_connection ''Z'') (example_remote 9 ''Z''),
            RemoteConnectTo (example_remote 9 ''Z'') ?cmd, SharedPtrDestroy ?cmd, CtxDestroy])"
    by (simp add: Let_def)
  from on_protocol_created_flag [of ?closing 9 ?p ?ctx] c(2) cb a2
  have p2: "ten_engine_on_protocol_created 9 ?closing ?p ?ctx =
     Some (?closing,
           [EngineReturnErrorForCmdStartGraph ?cmd ''Failed to create remote (Z)'',
            SharedPtrDestroy ?cmd, CtxDestroy, ProtocolSetOnClosed ?p, ProtocolClose ?p])"
    and p3: "ten_engine_on_protocol_closed ?p ?closing =
     Some (?closing\<lparr>has_uncompleted_async_task := False\<rparr>, [ProtocolRefDecRef ?p, EngineOnClose])"
    by simp_all
  have f: "\<not> has_uncompleted_async_task (example_engine ''A'' Map.empty [example_remote 9 ''Z''])"
    "has_uncompleted_async_task ?closing"
    "?closing\<lparr>has_uncompleted_async_task := False\<rparr> =
       (example_engine ''A'' Map.empty [])\<lparr>is_closing := True, has_uncompleted_async_task := False\<rparr>"
    by (simp_all add: example_engine_def)
  from p1 p2 p3 f show ?thesis by simp
qed

subsection \<open>Uniqueness of weak remotes\<close>

lemma cnt_0_iff_notin:
  "length (filter (\<lambda>r. remote_uri r = uri) xs) = 0 \<longleftrightarrow> uri \<notin> set (map remote_uri xs)"
  by (induction xs) auto

lemma cnt_le_1_iff_distinct:
  "(\<forall>uri. length (filter (\<lambda>r. remote_uri r = uri) xs) \<le> 1) \<longleftrightarrow> distinct (map remote_uri xs)"
proof (induction xs)
  case Nil
  show ?case by simp
next
  case (Cons x xs)
  let ?n = "\<lambda>uri ys. length (filter (\<lambda>r. remote_uri r = uri) ys)"
  have step: "?n uri (x # xs) = (if remote_uri x = uri then Suc (?n uri xs) else ?n uri xs)" for uri
    by simp
  have "(\<forall>uri. ?n uri (x # xs) \<le> 1) \<longleftrightarrow> ?n (remote_uri x) xs = 0 \<and> (\<forall>uri. ?n uri xs \<le> 1)"
  proof
    assume a: "\<forall>uri. ?n uri (x # xs) \<le> 1"
    then have "?n (remote_uri x) (x # xs) \<le> 1" by (rule spec)
    then have "?n (remote_uri x) xs = 0" by (simp only: step) simp
    moreover have "?n uri xs \<le> 1" for uri
    proof -
      from a have "?n uri (x # xs) \<le> 1" by (rule spec)
      moreover have "?n uri xs \<le> ?n uri (x # xs)" by (simp only: step) simp
      ultimately show ?thesis by (rule order_trans [rotated])
    qed
    ultimately show "?n (remote_uri x) xs = 0 \<and> (\<forall>uri. ?n uri xs \<le> 1)" by blast
  next
    assume b: "?n (remote_uri x) xs = 0 \<and> (\<forall>uri. ?n uri xs \<le> 1)"
    show "\<forall>uri. ?n uri (x # xs) \<le> 1"
    proof
      fix uri
      from b have "?n uri xs \<le> 1" by blast
      with b show "?n uri (x # xs) \<le> 1"
        by (cases "remote_uri x = uri") (simp_all only: step, simp_all)
    qed
  qed
  then show ?case using Cons.IH cnt_0_iff_notin [of "remote_uri x" xs] by simp
qed

lemma weak_cnt_iff_distinct:
  "(\<forall>uri. ten_engine_weak_remotes_cnt_in_specified_uri self uri \<le> 1) \<longleftrightarrow>
     distinct (map remote_uri (weak_remotes self))"
  using cnt_le_1_iff_distinct [of "weak_remotes self"]
  by (simp add: ten_engine_weak_remotes_cnt_in_specified_uri_def ten_list_find_ptr_cnt_custom_def
      ten_remote_is_uri_equal_to_def)

lemma remove_ptr_subset: "set (snd (ten_list_remove_ptr xs remote)) \<subseteq> set xs"
  by (induction xs) auto

lemma remove_ptr_distinct:
  "distinct (map remote_uri xs) \<Longrightarrow> distinct (map remote_uri (snd (ten_list_remove_ptr xs remote)))"
proof (induction xs)
  case Nil
  then show ?case by simp
next
  case (Cons x xs)
  with remove_ptr_subset [of xs remote] show ?case by auto
qed

lemma del_weak_remote_distinct:
  "distinct (map remote_uri (weak_remotes self)) \<Longrightarrow>
   distinct (map remote_uri (weak_remotes (snd (ten_engine_del_weak_remote self remote))))"
  by (simp add: ten_engine_del_weak_remote_def Let_def remove_ptr_distinct)

lemma add_weak_remote_Some:
  assumes "ten_engine_add_weak_remote self remote = Some self1"
  shows "remote_uri remote \<notin> set (map remote_uri (weak_remotes self))"
    and "weak_remotes self1 = weak_remotes self @ [remote]"
    and "remotes self1 = remotes self"
  using assms
  by (auto simp: ten_engine_add_weak_remote_def ten_list_find_ptr_custom_def
      ten_remote_is_uri_equal_to_def ten_list_push_ptr_back_def find_None_iff
      split: option.splits)

lemma add_weak_remote_distinct:
  "ten_engine_add_weak_remote self remote = Some self1 \<Longrightarrow>
   distinct (map remote_uri (weak_remotes self)) \<Longrightarrow>
   distinct (map remote_uri (weak_remotes self1))"
  using add_weak_remote_Some [of self remote self1] by auto

lemma add_remote_weak:
  "ten_engine_add_remote self remote = Some self1 \<Longrightarrow> weak_remotes self1 = weak_remotes self"
  by (auto simp: ten_engine_add_remote_def split: option.splits)

lemma upgrade_distinct:
  "ten_engine_upgrade_weak_remote_to_normal_remote self remote = Some self1 \<Longrightarrow>
   distinct (map remote_uri (weak_remotes self)) \<Longrightarrow>
   distinct (map remote_uri (weak_remotes self1))"
  using add_remote_weak [of "snd (ten_engine_del_weak_remote self remote)" remote self1]
    del_weak_remote_distinct [of self remote]
  by (simp add: ten_engine_upgrade_weak_remote_to_normal_remote_def)

lemma on_remote_closed_distinct:
  assumes "ten_engine_on_remote_closed remote self = Some (self1, effs)"
    and "distinct (map remote_uri (weak_remotes self))"
  shows "distinct (map remote_uri (weak_remotes self1))"
proof -
  from assms(1) have "weak_remotes self1 = snd (ten_list_remove_ptr (weak_remotes self) remote)"
    by (auto simp: ten_engine_on_remote_closed_def ten_engine_del_weak_remote_def Let_def
        split: if_splits option.splits)
  with assms(2) show ?thesis by (simp add: remove_ptr_distinct)
qed

lemma after_remote_is_created_distinct:
  assumes "ten_engine_connect_to_remote_after_remote_is_created self remote_opt cmd
             = Some (self1, effs)"
    and "distinct (map remote_uri (weak_remotes self))"
  shows "distinct (map remote_uri (weak_remotes self1))"
proof (cases remote_opt)
  case None
  with assms show ?thesis
    by (auto simp: ten_engine_connect_to_remote_after_remote_is_created_def split: option.splits)
next
  case (Some remote)
  from check_remote_is_duplicated_cases [of self "remote_uri remote"] show ?thesis
  proof
    assume "ten_engine_check_remote_is_duplicated self (remote_uri remote) = (True, self)"
    with assms Some show ?thesis
      by (auto simp: ten_engine_connect_to_remote_after_remote_is_created_def split: option.splits)
  next
    assume "ten_engine_check_remote_is_duplicated self (remote_uri remote) = (False, self)"
    with assms(1) Some have "ten_engine_add_weak_remote self remote = Some self1"
      by (auto simp: ten_engine_connect_to_remote_after_remote_is_created_def split: option.splits)
    then show ?thesis using assms(2) by (rule add_weak_remote_distinct)
  qed
qed

lemma on_protocol_created_distinct:
  assumes "ctx_cb ctx = None \<or>
           ctx_cb ctx = Some ten_engine_connect_to_remote_after_remote_is_created"
    and "ten_engine_on_protocol_created ptr self protocol ctx = Some (self1, effs)"
    and "distinct (map remote_uri (weak_remotes self))"
  shows "distinct (map remote_uri (weak_remotes self1))"
  using assms(1)
proof
  assume "ctx_cb ctx = None"
  with assms(2,3) show ?thesis
    by (auto simp: ten_engine_on_protocol_created_def Let_def split: if_splits)
next
  assume cb: "ctx_cb ctx = Some ten_engine_connect_to_remote_after_remote_is_created"
  with assms(2) obtain e r effs0 where
    "ten_engine_connect_to_remote_after_remote_is_created e r (ctx_user_data ctx)
       = Some (self1, effs0)"
    "weak_remotes e = weak_remotes self"
    by (auto simp: ten_engine_on_protocol_created_def Let_def split: if_splits option.splits)
  with assms(3) after_remote_is_created_distinct [of e r "ctx_user_data ctx" self1 effs0]
  show ?thesis by simp
qed

lemma reachable_distinct:
  "engine_reachable self \<Longrightarrow> distinct (map remote_uri (weak_remotes self))"
proof (induction rule: engine_reachable.induct)
  case (created self)
  then show ?case by simp
next
  case (collaborator self self1)
  then show ?case by simp
next
  case (remote_closed self remote self1 effs)
  then show ?case by (auto dest: on_remote_closed_distinct)
next
  case (upgraded self remote self1)
  then show ?case by (auto dest: upgrade_distinct)
next
  case (orphan_linked self ptr orphan_connection uri self1 effs)
  then show ?case
    by (auto simp: ten_engine_link_orphan_connection_to_remote_def Let_def
        split: option.splits dest: add_remote_weak)
next
  case (protocol_closed self protocol self1 effs)
  then show ?case
    by (auto simp: ten_engine_on_protocol_closed_def split: if_splits)
next
  case (protocol_created self ctx ptr protocol self1 effs)
  then show ?case using on_protocol_created_distinct by blast
next
  case (graph_remote_dialled self addon uri cmd success self1 effs)
  then show ?case
    by (auto simp: ten_engine_connect_to_graph_remote_def ten_engine_create_remote_async_def
        Let_def split: if_splits)
next
  case (msg_routed self send msg self1 effs)
  then show ?case
    by (auto simp: ten_engine_route_msg_to_remote_def split: if_splits option.splits prod.splits)
next
  case (msg_received self remote msg success self1 effs)
  then show ?case
    by (auto simp: ten_engine_receive_msg_from_remote_def Let_def split: TEN_MSG_TYPE.splits)
qed

text \<open>
  As long as no assertion fails, the weak list holds at most one remote per URI:
  \<open>engine_reachable\<close> follows the steps that return, and
  \<open>ten_engine_add_weak_remote\<close> returns only when its assertion holds.
\<close>

lemma reachable_weak_cnt:
  "engine_reachable self \<Longrightarrow> ten_engine_weak_remotes_cnt_in_specified_uri self uri \<le> 1"
  using reachable_distinct [of self] weak_cnt_iff_distinct [of self] by blast

text \<open>
  C8 says that the weak list holds at most one remote per URI at every moment, and that
  \<open>ten_engine_add_weak_remote\<close> is only invoked when the weak list has no entry with the URI
  of the new remote. The source asserts both, but the check that guards the call does not
  establish them. On the engine \<open>''A''\<close> two dials to \<open>''B''\<close> are started; the continuation
  of the first puts its remote into the weak list; in the continuation of the second the
  duplicate check answers false, \<open>''B''\<close> being larger than \<open>''A''\<close>, and
  \<open>ten_engine_add_weak_remote\<close> is invoked with the entry for \<open>''B''\<close> present. Its assertion
  fails there, and the append that follows the assertion would leave two weak remotes for
  \<open>''B''\<close>.
\<close>

theorem second_dial_invokes_add_weak_with_entry_present:
  "ten_engine_connect_to_graph_remote example_addon (example_engine ''A'' Map.empty []) ''B''
       (example_cmd TEN_MSG_TYPE_CMD_START_GRAPH ''B'') =
     Some (True, (example_engine ''A'' Map.empty [])\<lparr>has_uncompleted_async_task := True\<rparr>,
           [CtxCreate, AddonCreateProtocolWithUri ''B'']) \<and>
   ten_engine_connect_to_graph_remote example_addon
       ((example_engine ''A'' Map.empty [])\<lparr>has_uncompleted_async_task := True\<rparr>) ''B''
       (example_cmd TEN_MSG_TYPE_CMD_START_GRAPH ''B'') =
     Some (True, (example_engine ''A'' Map.empty [])\<lparr>has_uncompleted_async_task := True\<rparr>,
           [CtxCreate, AddonCreateProtocolWithUri ''B'']) \<and>
   ten_engine_on_protocol_created 9
       ((example_engine ''A'' Map.empty [])\<lparr>has_uncompleted_async_task := True\<rparr>)
       \<lparr>protocol_ptr = 3, protocol_uri = ''B''\<rparr>
       (example_ctx (example_cmd TEN_MSG_TYPE_CMD_START_GRAPH ''B'')) =
     Some (example_engine ''A'' Map.empty [example_remote 9 ''B''],
           [ConnectionSetOnClosed (example_connection ''B'') (example_remote 9 ''B''),
            RemoteConnectTo (example_remote 9 ''B'') (example_cmd TEN_MSG_TYPE_CMD_START_GRAPH ''B''),
            SharedPtrDestroy (example_cmd TEN_MSG_TYPE_CMD_START_GRAPH ''B''),
            CtxDestroy]) \<and>
   ten_engine_weak_remotes_cnt_in_specified_uri
     (example_engine ''A'' Map.empty [example_remote 9 ''B'']) ''B'' = 1 \<and>
   \<not> fst (ten_engine_check_remote_is_duplicated
            (example_engine ''A'' Map.empty [example_remote 9 ''B'']) ''B'') \<and>
   ten_list_find_ptr_custom (weak_remotes (example_engine ''A'' Map.empty [example_remote 9 ''B'']))
       ''B'' ten_remote_is_uri_equal_to = Some (example_remote 9 ''B'') \<and>
   ten_engine_add_weak_remote (example_engine ''A'' Map.empty [example_remote 9 ''B''])
       \<lparr>remote_ptr = 11, remote_uri = ''B'',
        remote_connection =
          \<lparr>connection_protocol = \<lparr>protocol_ptr = 5, protocol_uri = ''B''\<rparr>,
           connection_uri = ''B'', migration_state = TEN_CONNECTION_MIGRATION_STATE_DONE\<rparr>\<rparr>
     = None \<and>
   ten_engine_on_protocol_created 11 (example_engine ''A'' Map.empty [example_remote 9 ''B''])
       \<lparr>protocol_ptr = 5, protocol_uri = ''B''\<rparr>
       (example_ctx (example_cmd TEN_MSG_TYPE_CMD_START_GRAPH ''B'')) = None \<and>
   ten_list_find_ptr_cnt_custom
       (ten_list_push_ptr_back
          (weak_remotes (example_engine ''A'' Map.empty [example_remote 9 ''B'']))
          \<lparr>remote_ptr = 11, remote_uri = ''B'',
           remote_connection =
             \<lparr>connection_protocol = \<lparr>protocol_ptr = 5, protocol_uri = ''B''\<rparr>,
              connection_uri = ''B'', migration_state = TEN_CONNECTION_MIGRATION_STATE_DONE\<rparr>\<rparr>)
       ''B'' ten_remote_is_uri_equal_to = 2"
proof -
  let ?cmd = "example_cmd TEN_MSG_TYPE_CMD_START_GRAPH ''B''"
  let ?E0 = "example_engine ''A'' Map.empty []"
  let ?E1 = "example_engine ''A'' Map.empty [example_remote 9 ''B'']"
  let ?r = "\<lparr>remote_ptr = 11, remote_uri = ''B'',
             remote_connection =
               \<lparr>connection_protocol = \<lparr>protocol_ptr = 5, protocol_uri = ''B''\<rparr>,
                connection_uri = ''B'', migration_state = TEN_CONNECTION_MIGRATION_STATE_DONE\<rparr>\<rparr>"
  have dial: "ten_engine_connect_to_graph_remote example_addon ?E0 ''B'' ?cmd =
     Some (True, ?E0\<lparr>has_uncompleted_async_task := True\<rparr>,
           [CtxCreate, AddonCreateProtocolWithUri ''B''])"
    "ten_engine_connect_to_graph_remote example_addon
       (?E0\<lparr>has_uncompleted_async_task := True\<rparr>) ''B'' ?cmd =
     Some (True, ?E0\<lparr>has_uncompleted_async_task := True\<rparr>,
           [CtxCreate, AddonCreateProtocolWithUri ''B''])"
    by (simp_all add: ten_engine_connect_to_graph_remote_def ten_engine_create_remote_async_def
        ten_msg_get_type_def example_cmd_def example_addon_def Let_def)
  have first: "ten_engine_on_protocol_created 9 (?E0\<lparr>has_uncompleted_async_task := True\<rparr>)
       \<lparr>protocol_ptr = 3, protocol_uri = ''B''\<rparr> (example_ctx ?cmd) =
     Some (?E1,
           [ConnectionSetOnClosed (example_connection ''B'') (example_remote 9 ''B''),
            RemoteConnectTo (example_remote 9 ''B'') ?cmd, SharedPtrDestroy ?cmd, CtxDestroy])"
    by (simp add: ten_engine_on_protocol_created_def example_ctx_def example_engine_def
        ten_engine_connect_to_remote_after_remote_is_created_def example_cmd_def
        check_remote_is_duplicated_eq ten_engine_check_remote_is_existed_def
        ten_hashtable_find_string_def ten_list_find_ptr_custom_def ten_engine_add_weak_remote_def
        ten_list_push_ptr_back_def ten_remote_create_for_engine_def ten_connection_create_def
        ten_connection_set_migration_state_def example_remote_def example_connection_def Let_def)
  have cnt: "ten_engine_weak_remotes_cnt_in_specified_uri ?E1 ''B'' = 1"
    by (simp add: ten_engine_weak_remotes_cnt_in_specified_uri_def
        ten_list_find_ptr_cnt_custom_def ten_remote_is_uri_equal_to_def example_engine_def
        example_remote_def)
  have found: "ten_list_find_ptr_custom (weak_remotes ?E1) ''B'' ten_remote_is_uri_equal_to
                 = Some (example_remote 9 ''B'')"
    by (simp add: ten_list_find_ptr_custom_def ten_remote_is_uri_equal_to_def example_engine_def
        example_remote_def)
  have dup: "\<not> fst (ten_engine_check_remote_is_duplicated ?E1 ''B'')"
    by (simp add: check_remote_is_duplicated_eq example_engine_def)
  have add: "ten_engine_add_weak_remote ?E1 ?r = None"
    using found by (simp add: ten_engine_add_weak_remote_def)
  have dup': "ten_engine_check_remote_is_duplicated
                (?E1\<lparr>has_uncompleted_async_task := False\<rparr>) ''B''
              = (False, ?E1\<lparr>has_uncompleted_async_task := False\<rparr>)"
    by (simp add: check_remote_is_duplicated_eq example_engine_def)
  have same: "?E1\<lparr>has_uncompleted_async_task := False\<rparr> = ?E1"
    by (simp add: example_engine_def)
  have second: "ten_engine_on_protocol_created 11 ?E1 \<lparr>protocol_ptr = 5, protocol_uri = ''B''\<rparr>
                  (example_ctx ?cmd) = None"
  proof -
    have "ten_engine_connect_to_remote_after_remote_is_created ?E1 (Some ?r) ?cmd = None"
      using dup' add
      by (simp add: ten_engine_connect_to_remote_after_remote_is_created_def same)
        (simp add: example_engine_def)
    moreover have "\<not> is_closing ?E1" by (simp add: example_engine_def)
    ultimately show ?thesis
      by (simp add: ten_engine_on_protocol_created_def example_ctx_def same
          ten_remote_create_for_engine_def ten_connection_create_def
          ten_connection_set_migration_state_def Let_def)
  qed
  have two: "ten_list_find_ptr_cnt_custom (ten_list_push_ptr_back (weak_remotes ?E1) ?r)
               ''B'' ten_remote_is_uri_equal_to = 2"
    by (simp add: ten_list_find_ptr_cnt_custom_def ten_list_push_ptr_back_def
        ten_remote_is_uri_equal_to_def example_engine_def example_remote_def)
  from dial first cnt dup found add second two show ?thesis by simp
qed

end
